theory Spec2Isabelle
  imports Main
begin

section \<open>LanguageEnum: the closed set of language codes\<close>

text \<open>\<^verbatim>\<open>enum class Code { English, Spanish, French }\<close> of LanguageEnum.h.\<close>

datatype Code = English | Spanish | French

text \<open>
  \<^verbatim>\<open>Language::toString\<close>: a switch over the three enumerators. The trailing
  \<^verbatim>\<open>return "en"\<close> after the switch is not reached by any enumerator.
\<close>

fun toString :: "Code \<Rightarrow> string" where
  "toString English = ''en''"
| "toString Spanish = ''es''"
| "toString French = ''fr''"

text \<open>\<^verbatim>\<open>Language::fromString\<close>: three comparisons in order, then the English default.\<close>

definition fromString :: "string \<Rightarrow> Code" where
  "fromString languageCode =
     (if languageCode = ''en'' then English
      else if languageCode = ''es'' then Spanish
      else if languageCode = ''fr'' then French
      else English)"

definition getAllCodes :: "string list" where
  "getAllCodes = [''en'', ''es'', ''fr'']"

definition isSupported :: "string \<Rightarrow> bool" where
  "isSupported languageCode \<longleftrightarrow>
     languageCode = ''en'' \<or> languageCode = ''es'' \<or> languageCode = ''fr''"

section \<open>LanguageController: state, collaborators and observable effects\<close>

text \<open>
  The external collaborators the controller only reads: the name of the system locale
  (\<^verbatim>\<open>QLocale::system().name()\<close>) and, for every resource path, whether
  \<^verbatim>\<open>QTranslator::load\<close> succeeds on it. Both are parameters of the model.
\<close>

record env =
  locale_name :: string
  loads :: "string \<Rightarrow> bool"

text \<open>
  The members of the class, together with the two pieces of process state the class
  writes: the resource that \<^verbatim>\<open>m_translator\<close> currently has installed in the
  application (\<open>None\<close> after \<^verbatim>\<open>removeTranslator\<close>) and the \<^verbatim>\<open>QSettings\<close> store.
\<close>

record controller =
  m_currentLanguage :: string
  m_availableLanguages :: "string list"
  installed :: "string option"
  settings :: "string \<rightharpoonup> string"

text \<open>The three signals of the class; \<^verbatim>\<open>languageLoadFailed\<close> carries language and reason.\<close>

datatype signal =
  currentLanguageChanged
| languageChanged
| languageLoadFailed string string

datatype level = Debug | Warning | Critical

text \<open>
  Everything a call does to the outside, in program order: signal emissions, calls of
  \<^verbatim>\<open>m_translator->load\<close> with their path, reads and writes of the settings store,
  queries of the system locale, and log lines (the streamed items as a list).
\<close>

datatype event =
  Emit signal
| Load string
| SettingsRead string
| SettingsWrite string string
| LocaleQuery
| Log level "string list"

text \<open>Projections of a trace of events.\<close>

fun emitted :: "event list \<Rightarrow> signal list" where
  "emitted [] = []"
| "emitted (Emit g # es) = g # emitted es"
| "emitted (_ # es) = emitted es"

fun attempts :: "event list \<Rightarrow> string list" where
  "attempts [] = []"
| "attempts (Load p # es) = p # attempts es"
| "attempts (_ # es) = attempts es"

fun writes :: "event list \<Rightarrow> (string \<times> string) list" where
  "writes [] = []"
| "writes (SettingsWrite k v # es) = (k, v) # writes es"
| "writes (_ # es) = writes es"

fun is_Log :: "event \<Rightarrow> bool" where
  "is_Log (Log _ _) = True"
| "is_Log _ = False"

definition effects :: "event list \<Rightarrow> event list" where
  "effects es = filter (\<lambda>e. \<not> is_Log e) es"

text \<open>\<^verbatim>\<open>QStringList::join\<close>.\<close>

fun join :: "string list \<Rightarrow> string \<Rightarrow> string" where
  "join [] sep = []"
| "join [x] sep = x"
| "join (x # y # ys) sep = x @ sep @ join (y # ys) sep"

text \<open>The resource path built by \<^verbatim>\<open>QString(":/translations/app_%1.qm").arg(language)\<close>.\<close>

definition resourcePath :: "string \<Rightarrow> string" where
  "resourcePath language = '':/translations/app_'' @ language @ ''.qm''"

text \<open>\<^verbatim>\<open>QLocale::system().name().left(2)\<close>.\<close>

definition systemLang :: "env \<Rightarrow> string" where
  "systemLang e = take 2 (locale_name e)"

subsection \<open>tryLoadLanguage\<close>

text \<open>
  Removes the old translator, then tries to load the resource of the language; only on
  success is the translator installed again.
\<close>

definition tryLoadLanguage :: "env \<Rightarrow> string \<Rightarrow> controller \<Rightarrow> bool \<times> event list \<times> controller" where
  "tryLoadLanguage e language s =
     (let s1 = s\<lparr>installed := None\<rparr>;
          path = resourcePath language
      in if loads e path
         then (True,
               [Load path, Log Debug [''Successfully loaded language:'', language, ''from'', path]],
               s1\<lparr>installed := Some path\<rparr>)
         else (False,
               [Load path, Log Debug [''Failed to load language file:'', path]],
               s1))"

subsection \<open>loadLanguage\<close>

text \<open>
  The three-step chain. The \<^verbatim>\<open>&&\<close> of the source short-circuits: the second and third
  \<^verbatim>\<open>tryLoadLanguage\<close> are called only when the comparison before them holds.
\<close>

definition loadLanguage :: "env \<Rightarrow> string \<Rightarrow> controller \<Rightarrow> event list \<times> controller" where
  "loadLanguage e language s =
     (case tryLoadLanguage e language s of (ok1, t1, s1) \<Rightarrow>
      if ok1 then (t1, s1)
      else
        let sys = systemLang e in
        (case (if language \<noteq> sys then tryLoadLanguage e sys s1 else (False, [], s1))
         of (ok2, t2, s2) \<Rightarrow>
         if ok2
         then (t1 @ [LocaleQuery] @ t2 @
                 [Log Warning [''Requested language'', language, ''failed, using system language'', sys],
                  Emit currentLanguageChanged],
               s2\<lparr>m_currentLanguage := sys\<rparr>)
         else
           (case (if language \<noteq> ''en'' then tryLoadLanguage e ''en'' s2 else (False, [], s2))
            of (ok3, t3, s3) \<Rightarrow>
            if ok3
            then (t1 @ [LocaleQuery] @ t2 @ t3 @
                    [Log Warning [''Language'', language, ''failed, falling back to English''],
                     Emit currentLanguageChanged],
                  s3\<lparr>m_currentLanguage := ''en''\<rparr>)
            else (t1 @ [LocaleQuery] @ t2 @ t3 @
                    [Log Critical [''All language fallbacks failed for:'', language]],
                  s3))))"

subsection \<open>initializeLanguage\<close>

text \<open>
  \<^verbatim>\<open>settings.value("language").toString()\<close> is the empty string when the key is absent.
\<close>

definition savedValue :: "controller \<Rightarrow> string" where
  "savedValue s = (case settings s ''language'' of None \<Rightarrow> [] | Some v \<Rightarrow> v)"

definition initializeLanguage :: "env \<Rightarrow> controller \<Rightarrow> string \<times> event list" where
  "initializeLanguage e s =
     (let savedLanguage = savedValue s
      in if savedLanguage \<noteq> [] \<and> savedLanguage \<in> set (m_availableLanguages s)
         then (savedLanguage,
               [SettingsRead ''language'', Log Debug [''Restored saved language:'', savedLanguage]])
         else
           let systemLocale = systemLang e
           in if systemLocale \<in> set (m_availableLanguages s)
              then (systemLocale,
                    [SettingsRead ''language'', LocaleQuery,
                     Log Debug [''Using system language:'', systemLocale]])
              else (''en'',
                    [SettingsRead ''language'', LocaleQuery,
                     Log Debug [''Using default language: en'']]))"

subsection \<open>The constructor\<close>

text \<open>
  The constructor fills the list of available languages (\<open>fresh\<close> is the object at that
  point, over a given settings store, with no translator installed yet), assigns the
  result of \<open>initializeLanguage\<close> to \<^verbatim>\<open>m_currentLanguage\<close> (\<open>constructed\<close> is the
  object at that point) and runs \<open>loadLanguage\<close> on it.
\<close>

definition fresh :: "(string \<rightharpoonup> string) \<Rightarrow> controller" where
  "fresh store =
     \<lparr>m_currentLanguage = [], m_availableLanguages = [''en'', ''es'', ''fr''],
      installed = None, settings = store\<rparr>"

definition constructed :: "env \<Rightarrow> (string \<rightharpoonup> string) \<Rightarrow> controller" where
  "constructed e store = (fresh store)\<lparr>m_currentLanguage := fst (initializeLanguage e (fresh store))\<rparr>"

definition LanguageController :: "env \<Rightarrow> (string \<rightharpoonup> string) \<Rightarrow> event list \<times> controller" where
  "LanguageController e store =
     (let s1 = constructed e store;
          t0 = snd (initializeLanguage e (fresh store));
          (t1, s2) = loadLanguage e (m_currentLanguage s1) s1
      in (t0 @ t1, s2))"

subsection \<open>setCurrentLanguage\<close>

definition setCurrentLanguage :: "env \<Rightarrow> string \<Rightarrow> controller \<Rightarrow> event list \<times> controller" where
  "setCurrentLanguage e language s =
     (if language = [] then
        ([Emit (languageLoadFailed language ''Empty language code provided'')], s)
      else if language \<notin> set (m_availableLanguages s) then
        (let availableList = join (m_availableLanguages s) '', ''
         in ([Emit (languageLoadFailed language
                      (''Unsupported language. Available languages: '' @ availableList))], s))
      else if m_currentLanguage s = language then
        ([Log Debug [''Language'', language, ''is already current'']], s)
      else
        (let s1 = s\<lparr>m_currentLanguage := language\<rparr>;
             s2 = s1\<lparr>settings := (settings s1)(''language'' \<mapsto> language)\<rparr>;
             (t, s3) = loadLanguage e language s2
         in ([SettingsWrite ''language'' language] @ t @
               [Emit currentLanguageChanged, Emit languageChanged],
             s3)))"

subsection \<open>Reachable states\<close>

text \<open>
  The states a controller can be in: the one the constructor leaves, from any settings
  store, and every state a call of \<open>setCurrentLanguage\<close> leads to from a reachable one.
\<close>

inductive reachable :: "env \<Rightarrow> controller \<Rightarrow> bool" for e :: env where
  start: "reachable e (snd (LanguageController e store))"
| request: "reachable e s \<Longrightarrow> reachable e (snd (setCurrentLanguage e language s))"

subsection \<open>The translation resource store\<close>

text \<open>
  Modelled from the spec: the bundle of compiled translation resources is not among the
  sources. The specification describes it as a read-only set with one resource per
  supported language, addressed as \<^verbatim>\<open>app_<code>\<close>; so only the resources of en, es
  and fr can load (each of them may still fail to).
\<close>

definition supported_store :: "env \<Rightarrow> bool" where
  "supported_store e \<longleftrightarrow>
     (\<forall>p. loads e p \<longrightarrow>
        p \<in> {resourcePath ''en'', resourcePath ''es'', resourcePath ''fr''})"

section \<open>Example environments\<close>

text \<open>
  Concrete collaborators on which the theorems below are instantiated: a name of the
  system locale, together with one loadable language, two, none, or every resource.
\<close>

definition env_only :: "string \<Rightarrow> string \<Rightarrow> env" where
  "env_only name lang = \<lparr>locale_name = name, loads = (\<lambda>p. p = resourcePath lang)\<rparr>"

definition env_two :: "string \<Rightarrow> string \<Rightarrow> string \<Rightarrow> env" where
  "env_two name lang1 lang2 =
     \<lparr>locale_name = name, loads = (\<lambda>p. p = resourcePath lang1 \<or> p = resourcePath lang2)\<rparr>"

definition env_none :: "string \<Rightarrow> env" where
  "env_none name = \<lparr>locale_name = name, loads = (\<lambda>p. False)\<rparr>"

definition env_all :: "string \<Rightarrow> env" where
  "env_all name = \<lparr>locale_name = name, loads = (\<lambda>p. True)\<rparr>"

section \<open>Properties of LanguageEnum\<close>

text \<open>
  C9. Converting a code to its string and back gives the code again; for every string,
  converting it to a code and back gives the string again exactly when the string is
  supported; and every string that is not supported, the empty one included, converts
  to English.
\<close>

theorem fromString_toString_roundtrip:
  "fromString (toString c) = c \<and>
   (toString (fromString s) = s \<longleftrightarrow> isSupported s) \<and>
   (\<not> isSupported s \<longrightarrow> fromString s = English)"
proof (intro conjI)
  show "fromString (toString c) = c"
    by (cases c) (simp_all add: fromString_def)
next
  show "toString (fromString s) = s \<longleftrightarrow> isSupported s"
    by (auto simp: fromString_def isSupported_def)
next
  show "\<not> isSupported s \<longrightarrow> fromString s = English"
    by (simp add: fromString_def isSupported_def)
qed

theorem fromString_toString_roundtrip_witness:
  "\<not> isSupported ''de'' \<and> fromString ''de'' = English \<and>
   \<not> isSupported [] \<and> fromString [] = English \<and>
   toString (fromString ''de'') \<noteq> ''de'' \<and>
   toString (fromString ''fr'') = ''fr''"
proof -
  have unsupported: "\<not> isSupported ''de''" "\<not> isSupported []" and supported: "isSupported ''fr''"
    by (simp_all add: isSupported_def)
  show ?thesis
    using fromString_toString_roundtrip [of English "''de''"]
          fromString_toString_roundtrip [of English "[]"]
          fromString_toString_roundtrip [of English "''fr''"]
          unsupported supported
    by simp
qed

section \<open>Properties of the load chain\<close>

lemma tryLoadLanguage_result:
  "tryLoadLanguage e language s =
     (if loads e (resourcePath language)
      then (True,
            [Load (resourcePath language),
             Log Debug [''Successfully loaded language:'', language, ''from'', resourcePath language]],
            s\<lparr>installed := Some (resourcePath language)\<rparr>)
      else (False,
            [Load (resourcePath language),
             Log Debug [''Failed to load language file:'', resourcePath language]],
            s\<lparr>installed := None\<rparr>))"
  by (simp add: tryLoadLanguage_def Let_def)

lemma loadLanguage_available [simp]:
  "m_availableLanguages (snd (loadLanguage e language s)) = m_availableLanguages s"
  by (simp add: loadLanguage_def tryLoadLanguage_result Let_def)

lemma loadLanguage_settings [simp]:
  "settings (snd (loadLanguage e language s)) = settings s"
  by (simp add: loadLanguage_def tryLoadLanguage_result Let_def)

lemma loadLanguage_writes [simp]:
  "writes (fst (loadLanguage e language s)) = []"
  by (simp add: loadLanguage_def tryLoadLanguage_result Let_def)

lemma loadLanguage_first_attempt:
  "\<exists>rest. attempts (fst (loadLanguage e language s)) = resourcePath language # rest"
  by (simp add: loadLanguage_def tryLoadLanguage_result Let_def)

lemma loadLanguage_emitted:
  "emitted (fst (loadLanguage e language s)) =
     (if \<not> loads e (resourcePath language) \<and>
         ((language \<noteq> systemLang e \<and> loads e (resourcePath (systemLang e))) \<or>
          (language \<noteq> ''en'' \<and> loads e (resourcePath ''en'')))
      then [currentLanguageChanged] else [])"
  by (simp add: loadLanguage_def tryLoadLanguage_result Let_def)

lemma emitted_append [simp]: "emitted (xs @ ys) = emitted xs @ emitted ys"
  by (induction xs rule: emitted.induct) simp_all

lemma attempts_append [simp]: "attempts (xs @ ys) = attempts xs @ attempts ys"
  by (induction xs rule: attempts.induct) simp_all

lemma writes_append [simp]: "writes (xs @ ys) = writes xs @ writes ys"
  by (induction xs rule: writes.induct) simp_all

lemma loadLanguage_current:
  "m_currentLanguage (snd (loadLanguage e language s)) =
     (if loads e (resourcePath language) then m_currentLanguage s
      else if language \<noteq> systemLang e \<and> loads e (resourcePath (systemLang e)) then systemLang e
      else if language \<noteq> ''en'' \<and> loads e (resourcePath ''en'') then ''en''
      else m_currentLanguage s)"
  by (simp add: loadLanguage_def tryLoadLanguage_result Let_def)

text \<open>
  C2. The load chain tries the candidate's resource first and stops if it loads.
  Otherwise it queries the system locale and tries that language's resource only if the
  language differs from the candidate; on success it sets the current language to it and
  emits one \<open>currentLanguageChanged\<close>. Otherwise it tries the English resource only if
  the candidate is not English; on success it sets the current language to English and
  emits one \<open>currentLanguageChanged\<close>. The list of effects (everything but log lines) is
  given in full for each of the four outcomes, so no other resource is attempted and the
  attempts come in this order.
\<close>

theorem loadLanguage_chain:
  "(loads e (resourcePath language) \<longrightarrow>
      effects (fst (loadLanguage e language s)) = [Load (resourcePath language)] \<and>
      m_currentLanguage (snd (loadLanguage e language s)) = m_currentLanguage s \<and>
      installed (snd (loadLanguage e language s)) = Some (resourcePath language))
   \<and>
   (\<not> loads e (resourcePath language) \<and> language \<noteq> systemLang e \<and>
    loads e (resourcePath (systemLang e)) \<longrightarrow>
      effects (fst (loadLanguage e language s)) =
        [Load (resourcePath language), LocaleQuery, Load (resourcePath (systemLang e)),
         Emit currentLanguageChanged] \<and>
      m_currentLanguage (snd (loadLanguage e language s)) = systemLang e \<and>
      installed (snd (loadLanguage e language s)) = Some (resourcePath (systemLang e)))
   \<and>
   (\<not> loads e (resourcePath language) \<and>
    \<not> (language \<noteq> systemLang e \<and> loads e (resourcePath (systemLang e))) \<and>
    language \<noteq> ''en'' \<and> loads e (resourcePath ''en'') \<longrightarrow>
      effects (fst (loadLanguage e language s)) =
        [Load (resourcePath language), LocaleQuery] @
        (if language \<noteq> systemLang e then [Load (resourcePath (systemLang e))] else []) @
        [Load (resourcePath ''en''), Emit currentLanguageChanged] \<and>
      m_currentLanguage (snd (loadLanguage e language s)) = ''en'' \<and>
      installed (snd (loadLanguage e language s)) = Some (resourcePath ''en''))
   \<and>
   (\<not> loads e (resourcePath language) \<and>
    \<not> (language \<noteq> systemLang e \<and> loads e (resourcePath (systemLang e))) \<and>
    \<not> (language \<noteq> ''en'' \<and> loads e (resourcePath ''en'')) \<longrightarrow>
      effects (fst (loadLanguage e language s)) =
        [Load (resourcePath language), LocaleQuery] @
        (if language \<noteq> systemLang e then [Load (resourcePath (systemLang e))] else []) @
        (if language \<noteq> ''en'' then [Load (resourcePath ''en'')] else []) \<and>
      m_currentLanguage (snd (loadLanguage e language s)) = m_currentLanguage s \<and>
      installed (snd (loadLanguage e language s)) = None)"
  (is "?first \<and> ?second \<and> ?third \<and> ?none")
proof -
  note chain = loadLanguage_def tryLoadLanguage_result Let_def effects_def
  have first: ?first
    by (simp add: chain)
  have second: ?second
    by (simp add: chain)
  have third: ?third
    by (auto simp: chain)
  have none: ?none
    by (auto simp: chain)
  from first second third none show ?thesis
    by (intro conjI)
qed

theorem loadLanguage_chain_witness:
  "loads (env_all ''es_ES'') (resourcePath ''fr'') \<and>
   effects (fst (loadLanguage (env_all ''es_ES'') ''fr'' (fresh Map.empty))) =
     [Load '':/translations/app_fr.qm''] \<and>
   m_currentLanguage (snd (loadLanguage (env_all ''es_ES'') ''fr'' (fresh Map.empty))) = [] \<and>
   effects (fst (loadLanguage (env_only ''fr_FR'' ''fr'') ''es'' (fresh Map.empty))) =
     [Load '':/translations/app_es.qm'', LocaleQuery, Load '':/translations/app_fr.qm'',
      Emit currentLanguageChanged] \<and>
   m_currentLanguage (snd (loadLanguage (env_only ''fr_FR'' ''fr'') ''es'' (fresh Map.empty))) = ''fr'' \<and>
   effects (fst (loadLanguage (env_only ''de_DE'' ''en'') ''es'' (fresh Map.empty))) =
     [Load '':/translations/app_es.qm'', LocaleQuery, Load '':/translations/app_de.qm'',
      Load '':/translations/app_en.qm'', Emit currentLanguageChanged] \<and>
   m_currentLanguage (snd (loadLanguage (env_only ''de_DE'' ''en'') ''es'' (fresh Map.empty))) = ''en'' \<and>
   effects (fst (loadLanguage (env_none ''es_ES'') ''es'' (fresh Map.empty))) =
     [Load '':/translations/app_es.qm'', LocaleQuery, Load '':/translations/app_en.qm''] \<and>
   installed (snd (loadLanguage (env_none ''es_ES'') ''es'' (fresh Map.empty))) = None"
  using loadLanguage_chain [of "env_all ''es_ES''" "''fr''" "fresh Map.empty"]
        loadLanguage_chain [of "env_only ''fr_FR'' ''fr''" "''es''" "fresh Map.empty"]
        loadLanguage_chain [of "env_only ''de_DE'' ''en''" "''es''" "fresh Map.empty"]
        loadLanguage_chain [of "env_none ''es_ES''" "''es''" "fresh Map.empty"]
  by (simp add: env_all_def env_only_def env_none_def resourcePath_def systemLang_def fresh_def)

text \<open>
  C6. When the resource of the candidate, the resource of the system language and the
  English resource all fail to load, the load chain leaves the current language as it
  was on entry (so equal to the candidate whenever the caller had set it to the
  candidate), emits no signal, leaves no translator installed, and ends with a log line
  of critical severity; the chain returns a state as always, there is no error outcome.
  From a validated, state-changing \<open>setCurrentLanguage\<close> the current language then
  ends as the requested one, and the only signals are the two of the caller.
\<close>

theorem loadLanguage_all_fail:
  assumes "\<not> loads e (resourcePath language)"
    and "\<not> loads e (resourcePath (systemLang e))"
    and "\<not> loads e (resourcePath ''en'')"
  shows "m_currentLanguage (snd (loadLanguage e language s)) = m_currentLanguage s \<and>
         (m_currentLanguage s = language \<longrightarrow>
            m_currentLanguage (snd (loadLanguage e language s)) = language) \<and>
         emitted (fst (loadLanguage e language s)) = [] \<and>
         installed (snd (loadLanguage e language s)) = None \<and>
         last (fst (loadLanguage e language s)) =
           Log Critical [''All language fallbacks failed for:'', language] \<and>
         (language \<noteq> [] \<and> language \<in> set (m_availableLanguages s) \<and>
          language \<noteq> m_currentLanguage s \<longrightarrow>
            m_currentLanguage (snd (setCurrentLanguage e language s)) = language \<and>
            emitted (fst (setCurrentLanguage e language s)) =
              [currentLanguageChanged, languageChanged])"
proof -
  have cur: "m_currentLanguage (snd (loadLanguage e language s')) = m_currentLanguage s'" for s'
    using assms by (simp add: loadLanguage_current)
  have em: "emitted (fst (loadLanguage e language s')) = []" for s'
    using assms by (simp add: loadLanguage_emitted)
  have inst: "installed (snd (loadLanguage e language s)) = None"
    using assms by (simp add: loadLanguage_def tryLoadLanguage_result Let_def)
  have lst: "last (fst (loadLanguage e language s)) =
      Log Critical [''All language fallbacks failed for:'', language]"
    using assms by (simp add: loadLanguage_def tryLoadLanguage_result Let_def)
  have caller: "m_currentLanguage (snd (setCurrentLanguage e language s)) = language \<and>
      emitted (fst (setCurrentLanguage e language s)) = [currentLanguageChanged, languageChanged]"
    if "language \<noteq> []" "language \<in> set (m_availableLanguages s)"
      "language \<noteq> m_currentLanguage s"
    using that by (auto simp: setCurrentLanguage_def Let_def split_beta cur em)
  show ?thesis
    using cur [of s] em [of s] inst lst caller by simp
qed

theorem loadLanguage_all_fail_witness:
  "\<not> loads (env_none ''de_DE'') (resourcePath ''es'') \<and>
   m_currentLanguage (snd (loadLanguage (env_none ''de_DE'') ''es''
      ((fresh Map.empty)\<lparr>m_currentLanguage := ''es''\<rparr>))) = ''es'' \<and>
   emitted (fst (loadLanguage (env_none ''de_DE'') ''es''
      ((fresh Map.empty)\<lparr>m_currentLanguage := ''es''\<rparr>))) = [] \<and>
   ''es'' \<in> set (m_availableLanguages ((fresh Map.empty)\<lparr>m_currentLanguage := ''en''\<rparr>)) \<and>
   m_currentLanguage (snd (setCurrentLanguage (env_none ''de_DE'') ''es''
      ((fresh Map.empty)\<lparr>m_currentLanguage := ''en''\<rparr>))) = ''es'' \<and>
   emitted (fst (setCurrentLanguage (env_none ''de_DE'') ''es''
      ((fresh Map.empty)\<lparr>m_currentLanguage := ''en''\<rparr>))) =
     [currentLanguageChanged, languageChanged]"
  using loadLanguage_all_fail [of "env_none ''de_DE''" "''es''"
          "(fresh Map.empty)\<lparr>m_currentLanguage := ''es''\<rparr>"]
        loadLanguage_all_fail [of "env_none ''de_DE''" "''es''"
          "(fresh Map.empty)\<lparr>m_currentLanguage := ''en''\<rparr>"]
  by (simp add: env_none_def fresh_def)

section \<open>Properties of start-up\<close>



section \<open>Properties of setCurrentLanguage\<close>

lemma setCurrentLanguage_invalid:
  assumes "language = [] \<or> language \<notin> set (m_availableLanguages s)"
  shows "setCurrentLanguage e language s =
    ([Emit (languageLoadFailed language
        (if language = [] then ''Empty language code provided''
         else ''Unsupported language. Available languages: '' @
              join (m_availableLanguages s) '', ''))], s)"
  using assms by (auto simp: setCurrentLanguage_def Let_def)

lemma setCurrentLanguage_same:
  assumes "language \<noteq> []" and "language \<in> set (m_availableLanguages s)"
    and "m_currentLanguage s = language"
  shows "setCurrentLanguage e language s =
    ([Log Debug [''Language'', language, ''is already current'']], s)"
  using assms by (simp add: setCurrentLanguage_def)

lemma setCurrentLanguage_change:
  assumes "language \<noteq> []" and "language \<in> set (m_availableLanguages s)"
    and "m_currentLanguage s \<noteq> language"
  shows "setCurrentLanguage e language s =
    (SettingsWrite ''language'' language #
       fst (loadLanguage e language
         (s\<lparr>m_currentLanguage := language, settings := (settings s)(''language'' \<mapsto> language)\<rparr>)) @
       [Emit currentLanguageChanged, Emit languageChanged],
     snd (loadLanguage e language
         (s\<lparr>m_currentLanguage := language, settings := (settings s)(''language'' \<mapsto> language)\<rparr>)))"
  using assms by (simp add: setCurrentLanguage_def Let_def split_beta)

lemma setCurrentLanguage_available [simp]:
  "m_availableLanguages (snd (setCurrentLanguage e language s)) = m_availableLanguages s"
  by (simp add: setCurrentLanguage_def Let_def split_beta)

lemma reachable_available:
  "reachable e s \<Longrightarrow> m_availableLanguages s = [''en'', ''es'', ''fr'']"
proof (induction rule: reachable.induct)
  case (start store)
  show ?case
    by (simp add: LanguageController_def Let_def split_beta constructed_def fresh_def)
next
  case (request s language)
  then show ?case by simp
qed

lemma reachable_supported:
  "reachable e s \<Longrightarrow> set (m_availableLanguages s) = {''en'', ''es'', ''fr''}"
  by (auto simp: reachable_available)

lemma loadLanguage_current_cases:
  "m_currentLanguage (snd (loadLanguage e language s)) = m_currentLanguage s \<or>
   (m_currentLanguage (snd (loadLanguage e language s)) = systemLang e \<and>
    loads e (resourcePath (systemLang e))) \<or>
   m_currentLanguage (snd (loadLanguage e language s)) = ''en''"
  by (simp add: loadLanguage_current)

lemma loadLanguage_keeps_supported:
  assumes "m_currentLanguage s \<in> {''en'', ''es'', ''fr''}"
    and "systemLang e \<in> {''en'', ''es'', ''fr''} \<or> \<not> loads e (resourcePath (systemLang e))"
  shows "m_currentLanguage (snd (loadLanguage e language s)) \<in> {''en'', ''es'', ''fr''}"
proof -
  from loadLanguage_current_cases [of e language s]
  consider "m_currentLanguage (snd (loadLanguage e language s)) = m_currentLanguage s"
    | "m_currentLanguage (snd (loadLanguage e language s)) = systemLang e"
      "loads e (resourcePath (systemLang e))"
    | "m_currentLanguage (snd (loadLanguage e language s)) = ''en''"
    by blast
  then show ?thesis
  proof cases
    case 1
    then show ?thesis using assms(1) by simp
  next
    case 2
    then show ?thesis using assms(2) by metis
  next
    case 3
    then show ?thesis by simp
  qed
qed

lemma initializeLanguage_supported:
  "fst (initializeLanguage e (fresh store)) \<in> {''en'', ''es'', ''fr''}"
proof -
  have avail: "set (m_availableLanguages (fresh store)) = {''en'', ''es'', ''fr''}"
    by (auto simp: fresh_def)
  show ?thesis
    unfolding initializeLanguage_def Let_def avail by simp
qed

text \<open>
  Where the hop to the system language cannot leave the supported set (its language is
  supported, or its resource does not load), every reachable state has a supported
  current language.
\<close>

lemma currentLanguage_supported_if_hop_guarded:
  assumes "reachable e s"
    and "systemLang e \<in> {''en'', ''es'', ''fr''} \<or> \<not> loads e (resourcePath (systemLang e))"
  shows "m_currentLanguage s \<in> {''en'', ''es'', ''fr''}"
  using assms
proof (induction rule: reachable.induct)
  case (start store)
  have "m_currentLanguage (constructed e store) \<in> {''en'', ''es'', ''fr''}"
    using initializeLanguage_supported [of e store] by (simp add: constructed_def)
  then have "m_currentLanguage (snd (loadLanguage e (m_currentLanguage (constructed e store))
      (constructed e store))) \<in> {''en'', ''es'', ''fr''}"
    using start by (rule loadLanguage_keeps_supported)
  then show ?case
    by (simp add: LanguageController_def Let_def split_beta)
next
  case (request s language)
  then have cur: "m_currentLanguage s \<in> {''en'', ''es'', ''fr''}" by simp
  have av: "set (m_availableLanguages s) = {''en'', ''es'', ''fr''}"
    using request.hyps by (rule reachable_supported)
  consider (bad) "language = [] \<or> language \<notin> set (m_availableLanguages s)"
    | (same) "language \<noteq> []" "language \<in> set (m_availableLanguages s)"
        "m_currentLanguage s = language"
    | (change) "language \<noteq> []" "language \<in> set (m_availableLanguages s)"
        "m_currentLanguage s \<noteq> language"
    by blast
  then show ?case
  proof cases
    case bad
    then show ?thesis using cur by (simp add: setCurrentLanguage_invalid)
  next
    case same
    then show ?thesis using cur by (simp add: setCurrentLanguage_same)
  next
    case change
    let ?s2 = "s\<lparr>m_currentLanguage := language, settings := (settings s)(''language'' \<mapsto> language)\<rparr>"
    have "m_currentLanguage ?s2 \<in> {''en'', ''es'', ''fr''}"
      using change(2) av by simp
    then have "m_currentLanguage (snd (loadLanguage e language ?s2)) \<in> {''en'', ''es'', ''fr''}"
      using request.prems by (rule loadLanguage_keeps_supported)
    then show ?thesis
      using change by (simp add: setCurrentLanguage_change)
  qed
qed

lemma resourcePath_inject [simp]: "resourcePath a = resourcePath b \<longleftrightarrow> a = b"
  by (simp add: resourcePath_def)

lemma supported_store_guards_hop:
  assumes "supported_store e"
  shows "systemLang e \<in> {''en'', ''es'', ''fr''} \<or> \<not> loads e (resourcePath (systemLang e))"
proof (cases "loads e (resourcePath (systemLang e))")
  case True
  with assms have "resourcePath (systemLang e) \<in>
      {resourcePath ''en'', resourcePath ''es'', resourcePath ''fr''}"
    unfolding supported_store_def by blast
  then show ?thesis by simp
next
  case False
  then show ?thesis by simp
qed

text \<open>
  C1. With the resource store of the specification (only resources of supported
  languages can load), the current language of every reachable state is one of en, es,
  fr: it is so after construction, it stays so after every \<open>setCurrentLanguage\<close>, and a
  run of the load chain from such a state, with its hop to the system language, ends
  in such a state.
\<close>

theorem currentLanguage_supported:
  assumes "reachable e s" and "supported_store e"
  shows "m_currentLanguage s \<in> {''en'', ''es'', ''fr''} \<and>
         m_currentLanguage (snd (setCurrentLanguage e language s)) \<in> {''en'', ''es'', ''fr''} \<and>
         m_currentLanguage (snd (loadLanguage e language s)) \<in> {''en'', ''es'', ''fr''}"
proof -
  note guard = supported_store_guards_hop [OF assms(2)]
  have here: "m_currentLanguage s \<in> {''en'', ''es'', ''fr''}"
    using assms(1) guard by (rule currentLanguage_supported_if_hop_guarded)
  have "reachable e (snd (setCurrentLanguage e language s))"
    using assms(1) by (rule reachable.request)
  then have after: "m_currentLanguage (snd (setCurrentLanguage e language s)) \<in> {''en'', ''es'', ''fr''}"
    using guard by (rule currentLanguage_supported_if_hop_guarded)
  have chain: "m_currentLanguage (snd (loadLanguage e language s)) \<in> {''en'', ''es'', ''fr''}"
    using here guard by (rule loadLanguage_keeps_supported)
  from here after chain show ?thesis by simp
qed

text \<open>
  The instance: locale fr_FR, only the French resource loadable, nothing persisted. The
  constructor leaves fr; a request for es fails to load es and hops to the system
  language, fr.
\<close>

theorem currentLanguage_supported_witness:
  "supported_store (env_only ''fr_FR'' ''fr'') \<and>
   m_currentLanguage (snd (LanguageController (env_only ''fr_FR'' ''fr'') Map.empty)) \<in>
     {''en'', ''es'', ''fr''} \<and>
   m_currentLanguage (snd (setCurrentLanguage (env_only ''fr_FR'' ''fr'') ''es''
      (snd (LanguageController (env_only ''fr_FR'' ''fr'') Map.empty)))) \<in> {''en'', ''es'', ''fr''} \<and>
   emitted (fst (loadLanguage (env_only ''fr_FR'' ''fr'') ''es''
      (snd (LanguageController (env_only ''fr_FR'' ''fr'') Map.empty)))) = [currentLanguageChanged]"
proof -
  have store: "supported_store (env_only ''fr_FR'' ''fr'')"
    by (simp add: supported_store_def env_only_def)
  have hop: "emitted (fst (loadLanguage (env_only ''fr_FR'' ''fr'') ''es'' s)) =
      [currentLanguageChanged]" for s
    by (simp add: loadLanguage_emitted env_only_def systemLang_def)
  show ?thesis
    using currentLanguage_supported [OF reachable.start store, of Map.empty "''es''"] store hop
    by simp
qed

text \<open>
  The assumption on the store is needed. With the locale de_DE, nothing persisted and
  only a German resource loadable, the constructor hops to the system language and
  leaves de.
\<close>

lemma constructor_only_de:
  "snd (LanguageController (env_only ''de_DE'' ''de'') Map.empty) =
     \<lparr>m_currentLanguage = ''de'', m_availableLanguages = [''en'', ''es'', ''fr''],
      installed = Some '':/translations/app_de.qm'', settings = Map.empty\<rparr>"
  by (simp add: LanguageController_def constructed_def initializeLanguage_def savedValue_def
      fresh_def loadLanguage_def tryLoadLanguage_result Let_def systemLang_def env_only_def
      resourcePath_def)

text \<open>
  C5. For an input that is empty or not one of en, es, fr, \<open>setCurrentLanguage\<close> on a
  reachable state changes nothing of the state, attempts no resource load, writes nothing
  to the settings, and its whole trace is one \<open>languageLoadFailed\<close> carrying the input
  and a reason; for a non-empty input the reason lists en, es, fr.
\<close>

theorem setCurrentLanguage_rejects_invalid:
  assumes "reachable e s"
    and "language = [] \<or> language \<notin> {''en'', ''es'', ''fr''}"
  shows "snd (setCurrentLanguage e language s) = s \<and>
         attempts (fst (setCurrentLanguage e language s)) = [] \<and>
         writes (fst (setCurrentLanguage e language s)) = [] \<and>
         fst (setCurrentLanguage e language s) =
           [Emit (languageLoadFailed language
              (if language = [] then ''Empty language code provided''
               else ''Unsupported language. Available languages: en, es, fr''))]"
proof -
  have "language = [] \<or> language \<notin> set (m_availableLanguages s)"
    using assms by (simp add: reachable_available)
  then show ?thesis
    using reachable_available [OF assms(1)] by (simp add: setCurrentLanguage_invalid)
qed

theorem setCurrentLanguage_rejects_invalid_witness:
  "reachable (env_all ''es_ES'') (snd (LanguageController (env_all ''es_ES'') Map.empty)) \<and>
   fst (setCurrentLanguage (env_all ''es_ES'') ''de''
          (snd (LanguageController (env_all ''es_ES'') Map.empty))) =
     [Emit (languageLoadFailed ''de'' ''Unsupported language. Available languages: en, es, fr'')] \<and>
   fst (setCurrentLanguage (env_all ''es_ES'') []
          (snd (LanguageController (env_all ''es_ES'') Map.empty))) =
     [Emit (languageLoadFailed [] ''Empty language code provided'')] \<and>
   snd (setCurrentLanguage (env_all ''es_ES'') ''de''
          (snd (LanguageController (env_all ''es_ES'') Map.empty))) =
     snd (LanguageController (env_all ''es_ES'') Map.empty)"
  using setCurrentLanguage_rejects_invalid [OF reachable.start, of "''de''" "env_all ''es_ES''" Map.empty]
        setCurrentLanguage_rejects_invalid [OF reachable.start, of "[]" "env_all ''es_ES''" Map.empty]
        reachable.start [of "env_all ''es_ES''" Map.empty]
  by simp

text \<open>
  C10. When the input is empty, not one of en, es, fr, or equal to the current language,
  \<open>setCurrentLanguage\<close> on a reachable state writes nothing to the settings: its trace
  has no write and the store is the one before the call.
\<close>

theorem setCurrentLanguage_no_write_unless_changed:
  assumes "reachable e s"
    and "language = [] \<or> language \<notin> {''en'', ''es'', ''fr''} \<or> language = m_currentLanguage s"
  shows "writes (fst (setCurrentLanguage e language s)) = [] \<and>
         settings (snd (setCurrentLanguage e language s)) = settings s"
proof (cases "language = [] \<or> language \<notin> set (m_availableLanguages s)")
  case True
  then show ?thesis by (simp add: setCurrentLanguage_invalid)
next
  case False
  then have "language = m_currentLanguage s"
    using assms by (simp add: reachable_available)
  with False show ?thesis by (simp add: setCurrentLanguage_same)
qed

theorem setCurrentLanguage_no_write_unless_changed_witness:
  "m_currentLanguage (snd (LanguageController (env_all ''es_ES'') [''language'' \<mapsto> ''fr''])) = ''fr'' \<and>
   writes (fst (setCurrentLanguage (env_all ''es_ES'') ''fr''
      (snd (LanguageController (env_all ''es_ES'') [''language'' \<mapsto> ''fr''])))) = [] \<and>
   settings (snd (setCurrentLanguage (env_all ''es_ES'') ''fr''
      (snd (LanguageController (env_all ''es_ES'') [''language'' \<mapsto> ''fr''])))) ''language'' =
     Some ''fr'' \<and>
   settings (snd (setCurrentLanguage (env_all ''es_ES'') ''de''
      (snd (LanguageController (env_all ''es_ES'') [''language'' \<mapsto> ''fr''])))) ''language'' =
     Some ''fr''"
proof -
  have ctor: "snd (LanguageController (env_all ''es_ES'') [''language'' \<mapsto> ''fr'']) =
      \<lparr>m_currentLanguage = ''fr'', m_availableLanguages = [''en'', ''es'', ''fr''],
       installed = Some '':/translations/app_fr.qm'', settings = [''language'' \<mapsto> ''fr'']\<rparr>"
    by (simp add: LanguageController_def constructed_def initializeLanguage_def savedValue_def
        fresh_def loadLanguage_def tryLoadLanguage_result Let_def env_all_def resourcePath_def)
  show ?thesis
    using setCurrentLanguage_no_write_unless_changed
            [OF reachable.start, of "''fr''" "env_all ''es_ES''" "[''language'' \<mapsto> ''fr'']"]
          setCurrentLanguage_no_write_unless_changed
            [OF reachable.start, of "''de''" "env_all ''es_ES''" "[''language'' \<mapsto> ''fr'']"]
    by (simp add: ctor)
qed

text \<open>
  C8. On a validated, state-changing \<open>setCurrentLanguage\<close> (input non-empty, one of en,
  es, fr, and different from the current language) the trace starts with the write of the
  requested code under the key language; what follows is the trace of the load chain, run
  on the state that already holds the requested code as current language and in the
  store, and then the two signals. This is the only write, the first load attempt comes
  after it, and the store holds the requested code at the end, whatever current language
  the load chain ends with.
\<close>

theorem setCurrentLanguage_persists_first:
  assumes "reachable e s"
    and "language \<noteq> []" and "language \<in> {''en'', ''es'', ''fr''}"
    and "language \<noteq> m_currentLanguage s"
  shows "fst (setCurrentLanguage e language s) =
           SettingsWrite ''language'' language #
           fst (loadLanguage e language
             (s\<lparr>m_currentLanguage := language,
                settings := (settings s)(''language'' \<mapsto> language)\<rparr>)) @
           [Emit currentLanguageChanged, Emit languageChanged] \<and>
         writes (fst (setCurrentLanguage e language s)) = [(''language'', language)] \<and>
         hd (attempts (tl (fst (setCurrentLanguage e language s)))) = resourcePath language \<and>
         attempts (tl (fst (setCurrentLanguage e language s))) =
           attempts (fst (setCurrentLanguage e language s)) \<and>
         settings (snd (setCurrentLanguage e language s)) ''language'' = Some language"
proof -
  have valid: "language \<in> set (m_availableLanguages s)" "m_currentLanguage s \<noteq> language"
    using assms by (auto simp: reachable_available)
  let ?s2 = "s\<lparr>m_currentLanguage := language,
                settings := (settings s)(''language'' \<mapsto> language)\<rparr>"
  note eq = setCurrentLanguage_change [OF assms(2) valid, of e]
  obtain rest where rest: "attempts (fst (loadLanguage e language ?s2)) = resourcePath language # rest"
    using loadLanguage_first_attempt by blast
  have "hd (attempts (tl (fst (setCurrentLanguage e language s)))) = resourcePath language"
    by (simp add: eq rest)
  moreover have "writes (fst (setCurrentLanguage e language s)) = [(''language'', language)]"
    by (simp add: eq)
  moreover have "attempts (tl (fst (setCurrentLanguage e language s))) =
      attempts (fst (setCurrentLanguage e language s))"
    by (simp add: eq)
  moreover have "settings (snd (setCurrentLanguage e language s)) ''language'' = Some language"
    by (simp add: eq)
  ultimately show ?thesis
    using eq by simp
qed

text \<open>
  The instance: locale fr_FR, only the French resource loadable, fr persisted. A
  request for es writes es, then falls back to fr; the store keeps es.
\<close>

theorem setCurrentLanguage_persists_first_witness:
  "m_currentLanguage (snd (LanguageController (env_only ''fr_FR'' ''fr'') [''language'' \<mapsto> ''fr''])) = ''fr'' \<and>
   writes (fst (setCurrentLanguage (env_only ''fr_FR'' ''fr'') ''es''
      (snd (LanguageController (env_only ''fr_FR'' ''fr'') [''language'' \<mapsto> ''fr''])))) =
     [(''language'', ''es'')] \<and>
   settings (snd (setCurrentLanguage (env_only ''fr_FR'' ''fr'') ''es''
      (snd (LanguageController (env_only ''fr_FR'' ''fr'') [''language'' \<mapsto> ''fr''])))) ''language'' =
     Some ''es'' \<and>
   m_currentLanguage (snd (setCurrentLanguage (env_only ''fr_FR'' ''fr'') ''es''
      (snd (LanguageController (env_only ''fr_FR'' ''fr'') [''language'' \<mapsto> ''fr''])))) = ''fr''"
proof -
  have ctor: "snd (LanguageController (env_only ''fr_FR'' ''fr'') [''language'' \<mapsto> ''fr'']) =
      \<lparr>m_currentLanguage = ''fr'', m_availableLanguages = [''en'', ''es'', ''fr''],
       installed = Some '':/translations/app_fr.qm'', settings = [''language'' \<mapsto> ''fr'']\<rparr>"
    by (simp add: LanguageController_def constructed_def initializeLanguage_def savedValue_def
        fresh_def loadLanguage_def tryLoadLanguage_result Let_def env_only_def resourcePath_def)
  have cur: "m_currentLanguage (snd (setCurrentLanguage (env_only ''fr_FR'' ''fr'') ''es''
      \<lparr>m_currentLanguage = ''fr'', m_availableLanguages = [''en'', ''es'', ''fr''],
       installed = Some '':/translations/app_fr.qm'', settings = [''language'' \<mapsto> ''fr'']\<rparr>)) = ''fr''"
    by (simp add: setCurrentLanguage_def Let_def split_beta loadLanguage_current systemLang_def
        env_only_def resourcePath_def)
  show ?thesis
    using setCurrentLanguage_persists_first
            [OF reachable.start, of "''es''" "env_only ''fr_FR'' ''fr''" "[''language'' \<mapsto> ''fr'']"]
          cur
    by (simp add: ctor)
qed

text \<open>
  C4, as the code has it. On a validated, state-changing \<open>setCurrentLanguage\<close> the
  signals are, in order: one \<open>currentLanguageChanged\<close> from the load chain if and only if
  a fallback resource was loaded, then the \<open>currentLanguageChanged\<close> and the
  \<open>languageChanged\<close> of \<open>setCurrentLanguage\<close> itself. So \<open>languageChanged\<close> is
  emitted exactly once, and \<open>currentLanguageChanged\<close> once when the requested resource
  loads or every attempt fails, twice when a fallback resource was loaded.
\<close>

theorem setCurrentLanguage_notifications:
  assumes "reachable e s"
    and "language \<noteq> []" and "language \<in> {''en'', ''es'', ''fr''}"
    and "language \<noteq> m_currentLanguage s"
  shows "emitted (fst (setCurrentLanguage e language s)) =
           (if \<not> loads e (resourcePath language) \<and>
               ((language \<noteq> systemLang e \<and> loads e (resourcePath (systemLang e))) \<or>
                (language \<noteq> ''en'' \<and> loads e (resourcePath ''en'')))
            then [currentLanguageChanged] else []) @
           [currentLanguageChanged, languageChanged] \<and>
         count_list (emitted (fst (setCurrentLanguage e language s))) languageChanged = 1 \<and>
         count_list (emitted (fst (setCurrentLanguage e language s))) currentLanguageChanged =
           (if \<not> loads e (resourcePath language) \<and>
               ((language \<noteq> systemLang e \<and> loads e (resourcePath (systemLang e))) \<or>
                (language \<noteq> ''en'' \<and> loads e (resourcePath ''en'')))
            then 2 else 1)"
proof -
  have valid: "language \<in> set (m_availableLanguages s)" "m_currentLanguage s \<noteq> language"
    using assms by (auto simp: reachable_available)
  note eq = setCurrentLanguage_change [OF assms(2) valid, of e]
  have em: "emitted (fst (setCurrentLanguage e language s)) =
           (if \<not> loads e (resourcePath language) \<and>
               ((language \<noteq> systemLang e \<and> loads e (resourcePath (systemLang e))) \<or>
                (language \<noteq> ''en'' \<and> loads e (resourcePath ''en'')))
            then [currentLanguageChanged] else []) @
           [currentLanguageChanged, languageChanged]"
    by (simp add: eq loadLanguage_emitted)
  show ?thesis
    unfolding em by simp
qed

text \<open>
  The instances: locale de_DE with only the English resource loadable, where a request
  for es from en falls back to English (two \<open>currentLanguageChanged\<close>); and every
  resource loadable, where the request loads es (one).
\<close>

theorem setCurrentLanguage_notifications_witness:
  "''es'' \<noteq> m_currentLanguage (snd (LanguageController (env_only ''de_DE'' ''en'') Map.empty)) \<and>
   emitted (fst (setCurrentLanguage (env_only ''de_DE'' ''en'') ''es''
      (snd (LanguageController (env_only ''de_DE'' ''en'') Map.empty)))) =
     [currentLanguageChanged, currentLanguageChanged, languageChanged] \<and>
   ''es'' \<noteq> m_currentLanguage (snd (LanguageController (env_all ''de_DE'') Map.empty)) \<and>
   emitted (fst (setCurrentLanguage (env_all ''de_DE'') ''es''
      (snd (LanguageController (env_all ''de_DE'') Map.empty)))) =
     [currentLanguageChanged, languageChanged]"
proof -
  have c1: "m_currentLanguage (snd (LanguageController (env_only ''de_DE'' ''en'') Map.empty)) = ''en''"
    by (simp add: LanguageController_def constructed_def initializeLanguage_def savedValue_def
        fresh_def loadLanguage_current Let_def split_beta systemLang_def env_only_def
        resourcePath_def)
  have c2: "m_currentLanguage (snd (LanguageController (env_all ''de_DE'') Map.empty)) = ''en''"
    by (simp add: LanguageController_def constructed_def initializeLanguage_def savedValue_def
        fresh_def loadLanguage_current Let_def split_beta systemLang_def env_all_def
        resourcePath_def)
  have ev: "loads (env_only ''de_DE'' ''en'') p \<longleftrightarrow> p = resourcePath ''en''"
    "systemLang (env_only ''de_DE'' ''en'') = ''de''" "loads (env_all ''de_DE'') p" for p
    by (simp_all add: env_only_def env_all_def systemLang_def)
  show ?thesis
    using setCurrentLanguage_notifications
            [OF reachable.start, of "''es''" "env_only ''de_DE'' ''en''" Map.empty]
          setCurrentLanguage_notifications
            [OF reachable.start, of "''es''" "env_all ''de_DE''" Map.empty]
    by (simp add: c1 c2 ev resourcePath_def)
qed

text \<open>
  C4, as the specification has it, fails: with the locale de_DE and only the English
  resource loadable, the constructor leaves en; the validated request for es then emits
  \<open>currentLanguageChanged\<close> twice.
\<close>

theorem setCurrentLanguage_notifies_twice:
  "m_currentLanguage (snd (LanguageController (env_only ''de_DE'' ''en'') Map.empty)) = ''en'' \<and>
   ''es'' \<in> set (m_availableLanguages (snd (LanguageController (env_only ''de_DE'' ''en'') Map.empty))) \<and>
   count_list (emitted (fst (setCurrentLanguage (env_only ''de_DE'' ''en'') ''es''
      (snd (LanguageController (env_only ''de_DE'' ''en'') Map.empty))))) currentLanguageChanged = 2"
proof -
  have ctor: "snd (LanguageController (env_only ''de_DE'' ''en'') Map.empty) =
      \<lparr>m_currentLanguage = ''en'', m_availableLanguages = [''en'', ''es'', ''fr''],
       installed = Some '':/translations/app_en.qm'', settings = Map.empty\<rparr>"
    by (simp add: LanguageController_def constructed_def initializeLanguage_def savedValue_def
        fresh_def loadLanguage_def tryLoadLanguage_result Let_def systemLang_def env_only_def
        resourcePath_def)
  have "emitted (fst (setCurrentLanguage (env_only ''de_DE'' ''en'') ''es''
      \<lparr>m_currentLanguage = ''en'', m_availableLanguages = [''en'', ''es'', ''fr''],
       installed = Some '':/translations/app_en.qm'', settings = Map.empty\<rparr>)) =
      [currentLanguageChanged, currentLanguageChanged, languageChanged]"
    by (simp add: setCurrentLanguage_def Let_def split_beta loadLanguage_emitted systemLang_def
        env_only_def resourcePath_def)
  then show ?thesis
    by (simp add: ctor)
qed

text \<open>
  C7. With the resource store of the specification, \<open>setCurrentLanguage\<close> called on a
  reachable state with the current language as input returns the state as it was (current
  language, settings store and installed translation resource all unchanged), emits no
  signal, writes nothing and attempts no load: its whole trace is one debug log line.
\<close>

theorem setCurrentLanguage_current_noop:
  assumes "reachable e s" and "supported_store e"
  shows "snd (setCurrentLanguage e (m_currentLanguage s) s) = s \<and>
         emitted (fst (setCurrentLanguage e (m_currentLanguage s) s)) = [] \<and>
         writes (fst (setCurrentLanguage e (m_currentLanguage s) s)) = [] \<and>
         attempts (fst (setCurrentLanguage e (m_currentLanguage s) s)) = [] \<and>
         fst (setCurrentLanguage e (m_currentLanguage s) s) =
           [Log Debug [''Language'', m_currentLanguage s, ''is already current'']]"
proof -
  have cur: "m_currentLanguage s \<in> {''en'', ''es'', ''fr''}"
    using assms(1) supported_store_guards_hop [OF assms(2)]
    by (rule currentLanguage_supported_if_hop_guarded)
  then have nonempty: "m_currentLanguage s \<noteq> []" by auto
  have member: "m_currentLanguage s \<in> set (m_availableLanguages s)"
    using cur reachable_supported [OF assms(1)] by simp
  have "setCurrentLanguage e (m_currentLanguage s) s =
      ([Log Debug [''Language'', m_currentLanguage s, ''is already current'']], s)"
    using nonempty member by (rule setCurrentLanguage_same) simp
  then show ?thesis by simp
qed

text \<open>
  The instance: locale fr_FR, only the French resource loadable, fr persisted; the
  constructor leaves fr with the French resource installed, and a request for fr
  changes nothing.
\<close>

theorem setCurrentLanguage_current_noop_witness:
  "supported_store (env_only ''fr_FR'' ''fr'') \<and>
   m_currentLanguage (snd (LanguageController (env_only ''fr_FR'' ''fr'') [''language'' \<mapsto> ''fr''])) = ''fr'' \<and>
   setCurrentLanguage (env_only ''fr_FR'' ''fr'') ''fr''
      (snd (LanguageController (env_only ''fr_FR'' ''fr'') [''language'' \<mapsto> ''fr''])) =
     ([Log Debug [''Language'', ''fr'', ''is already current'']],
      \<lparr>m_currentLanguage = ''fr'', m_availableLanguages = [''en'', ''es'', ''fr''],
       installed = Some '':/translations/app_fr.qm'', settings = [''language'' \<mapsto> ''fr'']\<rparr>)"
proof -
  have store: "supported_store (env_only ''fr_FR'' ''fr'')"
    by (simp add: supported_store_def env_only_def)
  have ctor: "snd (LanguageController (env_only ''fr_FR'' ''fr'') [''language'' \<mapsto> ''fr'']) =
      \<lparr>m_currentLanguage = ''fr'', m_availableLanguages = [''en'', ''es'', ''fr''],
       installed = Some '':/translations/app_fr.qm'', settings = [''language'' \<mapsto> ''fr'']\<rparr>"
    by (simp add: LanguageController_def constructed_def initializeLanguage_def savedValue_def
        fresh_def loadLanguage_def tryLoadLanguage_result Let_def env_only_def resourcePath_def)
  show ?thesis
    using setCurrentLanguage_current_noop
            [OF reachable.start store, of "[''language'' \<mapsto> ''fr'']"]
          store
    by (simp add: ctor prod_eq_iff)
qed

end
